theory Spec2Isabelle
  imports Complex_Main "HOL-Library.Word"
begin

unbundle bit_operations_syntax

text \<open>
  A shallow embedding of three pieces of the repository: the ADC averaging filter, the
  singly linked list with its in-place reversal, and the MPU6050 driver, of which the
  source holds the register map, the range tables and the data structures.
\<close>

section \<open>ADC sampling (untitled-1769951646276.c and its preview)\<close>

text \<open>
  The HAL is an external library. One started conversion is described by what the HAL
  reports about it: the status \<open>HAL_ADC_PollForConversion\<close> returns for a given timeout
  and the 32-bit value \<open>HAL_ADC_GetValue\<close> returns.
\<close>

datatype HAL_StatusTypeDef = HAL_OK | HAL_ERROR | HAL_BUSY | HAL_TIMEOUT

record adc_conversion =
  HAL_ADC_PollForConversion :: "nat \<Rightarrow> HAL_StatusTypeDef"
  HAL_ADC_GetValue :: "32 word"

text \<open>
  \<open>ADC_Read\<close>: start a conversion (the status of \<open>HAL_ADC_Start\<close> is not looked at),
  poll with timeout 10, return the value narrowed to \<open>uint16_t\<close> when the poll reports
  \<open>HAL_OK\<close>, otherwise return 0.
\<close>

definition ADC_Read :: "adc_conversion \<Rightarrow> 16 word" where
  "ADC_Read c =
     (if HAL_ADC_PollForConversion c 10 = HAL_OK then ucast (HAL_ADC_GetValue c) else 0)"

definition SAMPLE_COUNT :: nat where
  "SAMPLE_COUNT = 10"

text \<open>
  The loop of \<open>ADC_AverageFilter\<close>. The argument \<open>hw\<close> gives the conversion that the
  call of \<open>ADC_Read\<close> in iteration \<open>i\<close> starts; \<open>i\<close> is the \<open>uint8_t\<close> counter and
  \<open>sum32\<close> the \<open>uint32_t\<close> accumulator (\<open>sum\<close> in the source), whose addition wraps.
\<close>

function ADC_AverageFilter_loop :: "(nat \<Rightarrow> adc_conversion) \<Rightarrow> 8 word \<Rightarrow> 32 word \<Rightarrow> 32 word" where
  "ADC_AverageFilter_loop hw i sum32 =
     (if unat i < SAMPLE_COUNT
      then ADC_AverageFilter_loop hw (i + 1) (sum32 + ucast (ADC_Read (hw (unat i))))
      else sum32)"
  by pat_completeness auto
termination
proof (relation "measure (\<lambda>(hw, i, sum32). SAMPLE_COUNT - unat i)")
  show "wf (measure (\<lambda>(hw, i, sum32). SAMPLE_COUNT - unat i))"
    by simp
next
  fix hw :: "nat \<Rightarrow> adc_conversion" and i :: "8 word" and sum32 :: "32 word"
  assume lt: "unat i < SAMPLE_COUNT"
  then have "unat i + 1 < 2 ^ 8"
    by (simp add: SAMPLE_COUNT_def)
  then have "unat (i + 1) = unat i + 1"
    by (simp add: unat_word_ariths)
  with lt show "((hw, i + 1, sum32 + ucast (ADC_Read (hw (unat i)))), (hw, i, sum32))
      \<in> measure (\<lambda>(hw, i, sum32). SAMPLE_COUNT - unat i)"
    by simp
qed

declare ADC_AverageFilter_loop.simps [simp del]

definition ADC_AverageFilter :: "(nat \<Rightarrow> adc_conversion) \<Rightarrow> 16 word" where
  "ADC_AverageFilter hw = ucast (ADC_AverageFilter_loop hw 0 0 div of_nat SAMPLE_COUNT)"


section \<open>Singly linked list (linkedlist.c)\<close>

text \<open>
  Pointers are addresses, with 0 for \<open>NULL\<close>. The heap maps the address of every
  allocated \<open>Node\<close> to its contents; an address outside its domain is not a valid node,
  and dereferencing it has no defined result. The \<open>int\<close> field \<open>data\<close> is a 32-bit
  word (read as two's complement by \<open>sint\<close>); the code only copies it. The field
  \<open>next\<close> of the source is \<open>next_node\<close> here.
\<close>

type_synonym addr = nat

definition NULL :: addr where
  [simp]: "NULL = 0"

record Node =
  data :: "32 word"
  next_node :: addr

type_synonym heap = "addr \<rightharpoonup> Node"

text \<open>
  The loop of \<open>reverse\<close>, with the local variables \<open>prev\<close> and \<open>current\<close> as
  arguments (\<open>next\<close> is the field read at the top of the body). The result is \<open>None\<close>
  when the loop follows a pointer to no valid node or never ends.
\<close>

partial_function (option) reverse_loop :: "heap \<Rightarrow> addr \<Rightarrow> addr \<Rightarrow> (heap \<times> addr) option" where
  "reverse_loop h prev current =
     (if current \<noteq> NULL
      then (case h current of
              None \<Rightarrow> None
            | Some n \<Rightarrow>
                reverse_loop (h(current \<mapsto> n\<lparr>next_node := prev\<rparr>)) current (next_node n))
      else Some (h, prev))"

definition reverse :: "heap \<Rightarrow> addr \<Rightarrow> (heap \<times> addr) option" where
  "reverse h head = reverse_loop h NULL head"

text \<open>
  \<open>list_at h p cs\<close>: in heap \<open>h\<close> the pointer \<open>p\<close> heads a \<open>NULL\<close>-terminated list
  whose nodes, in order, have the addresses and data values \<open>cs\<close>.
\<close>

fun list_at :: "heap \<Rightarrow> addr \<Rightarrow> (addr \<times> 32 word) list \<Rightarrow> bool" where
  "list_at h p [] = (p = NULL)"
| "list_at h p ((a, v) # cs) =
     (p = a \<and> a \<noteq> NULL \<and>
      (case h a of None \<Rightarrow> False | Some n \<Rightarrow> data n = v \<and> list_at h (next_node n) cs))"

text \<open>The head pointer of a list with the given nodes.\<close>

fun head_of :: "(addr \<times> 32 word) list \<Rightarrow> addr" where
  "head_of [] = NULL"
| "head_of ((a, v) # cs) = a"

section \<open>MPU6050 driver: register map, ranges and data structures (mpu6050.c)\<close>

subsection \<open>Register addresses\<close>

definition MPU6050_REG_SMPLRT_DIV :: "8 word" where
  "MPU6050_REG_SMPLRT_DIV = 0x19"

definition MPU6050_REG_CONFIG :: "8 word" where
  "MPU6050_REG_CONFIG = 0x1A"

definition MPU6050_REG_GYRO_CONFIG :: "8 word" where
  "MPU6050_REG_GYRO_CONFIG = 0x1B"

definition MPU6050_REG_ACCEL_CONFIG :: "8 word" where
  "MPU6050_REG_ACCEL_CONFIG = 0x1C"

definition MPU6050_REG_ACCEL_XOUT_H :: "8 word" where
  "MPU6050_REG_ACCEL_XOUT_H = 0x3B"

definition MPU6050_REG_TEMP_OUT_H :: "8 word" where
  "MPU6050_REG_TEMP_OUT_H = 0x41"

definition MPU6050_REG_GYRO_XOUT_H :: "8 word" where
  "MPU6050_REG_GYRO_XOUT_H = 0x43"

definition MPU6050_REG_PWR_MGMT_1 :: "8 word" where
  "MPU6050_REG_PWR_MGMT_1 = 0x6B"

definition MPU6050_REG_PWR_MGMT_2 :: "8 word" where
  "MPU6050_REG_PWR_MGMT_2 = 0x6C"

definition MPU6050_REG_WHO_AM_I :: "8 word" where
  "MPU6050_REG_WHO_AM_I = 0x75"

lemmas MPU6050_REG_defs =
  MPU6050_REG_SMPLRT_DIV_def MPU6050_REG_CONFIG_def MPU6050_REG_GYRO_CONFIG_def
  MPU6050_REG_ACCEL_CONFIG_def MPU6050_REG_ACCEL_XOUT_H_def MPU6050_REG_TEMP_OUT_H_def
  MPU6050_REG_GYRO_XOUT_H_def MPU6050_REG_PWR_MGMT_1_def MPU6050_REG_PWR_MGMT_2_def
  MPU6050_REG_WHO_AM_I_def

subsection \<open>Full-scale range selectors and sensitivities\<close>

text \<open>
  The sensitivities are \<open>float\<close> literals. Each is the real number that the literal
  denotes in IEEE-754 single precision (24-bit significand). Six of the eight literals
  are single-precision values as they stand. The literals \<open>32.8f\<close> and \<open>16.4f\<close> are
  not: they denote the nearest single-precision values, which have the significand
  8598323 and the bit patterns 0x42033333 and 0x41833333.
\<close>

definition MPU6050_GYRO_FS_250 :: "8 word" where
  "MPU6050_GYRO_FS_250 = 0x00"

definition MPU6050_GYRO_FS_500 :: "8 word" where
  "MPU6050_GYRO_FS_500 = 0x08"

definition MPU6050_GYRO_FS_1000 :: "8 word" where
  "MPU6050_GYRO_FS_1000 = 0x10"

definition MPU6050_GYRO_FS_2000 :: "8 word" where
  "MPU6050_GYRO_FS_2000 = 0x18"

definition MPU6050_ACCEL_FS_2G :: "8 word" where
  "MPU6050_ACCEL_FS_2G = 0x00"

definition MPU6050_ACCEL_FS_4G :: "8 word" where
  "MPU6050_ACCEL_FS_4G = 0x08"

definition MPU6050_ACCEL_FS_8G :: "8 word" where
  "MPU6050_ACCEL_FS_8G = 0x10"

definition MPU6050_ACCEL_FS_16G :: "8 word" where
  "MPU6050_ACCEL_FS_16G = 0x18"

definition MPU6050_ACCEL_SENS_2G :: real where
  "MPU6050_ACCEL_SENS_2G = 16384.0"

definition MPU6050_ACCEL_SENS_4G :: real where
  "MPU6050_ACCEL_SENS_4G = 8192.0"

definition MPU6050_ACCEL_SENS_8G :: real where
  "MPU6050_ACCEL_SENS_8G = 4096.0"

definition MPU6050_ACCEL_SENS_16G :: real where
  "MPU6050_ACCEL_SENS_16G = 2048.0"

definition MPU6050_GYRO_SENS_250 :: real where
  "MPU6050_GYRO_SENS_250 = 131.0"

definition MPU6050_GYRO_SENS_500 :: real where
  "MPU6050_GYRO_SENS_500 = 65.5"

definition MPU6050_GYRO_SENS_1000 :: real where
  "MPU6050_GYRO_SENS_1000 = 8598323 / 2 ^ 18"

definition MPU6050_GYRO_SENS_2000 :: real where
  "MPU6050_GYRO_SENS_2000 = 8598323 / 2 ^ 19"

lemmas MPU6050_FS_defs =
  MPU6050_GYRO_FS_250_def MPU6050_GYRO_FS_500_def MPU6050_GYRO_FS_1000_def
  MPU6050_GYRO_FS_2000_def MPU6050_ACCEL_FS_2G_def MPU6050_ACCEL_FS_4G_def
  MPU6050_ACCEL_FS_8G_def MPU6050_ACCEL_FS_16G_def

lemmas MPU6050_SENS_defs =
  MPU6050_ACCEL_SENS_2G_def MPU6050_ACCEL_SENS_4G_def MPU6050_ACCEL_SENS_8G_def
  MPU6050_ACCEL_SENS_16G_def MPU6050_GYRO_SENS_250_def MPU6050_GYRO_SENS_500_def
  MPU6050_GYRO_SENS_1000_def MPU6050_GYRO_SENS_2000_def

text \<open>
  The source has the selector bit patterns and the sensitivities as two families of
  macros, paired by the range in their names (and in their comments). The two
  enumerations below name the ranges; \<open>fs_bits\<close> and \<open>sens\<close> look the macros up.
\<close>

datatype AccelRange = ACCEL_2G | ACCEL_4G | ACCEL_8G | ACCEL_16G

datatype GyroRange = GYRO_250 | GYRO_500 | GYRO_1000 | GYRO_2000

fun accel_fs_bits :: "AccelRange \<Rightarrow> 8 word" where
  "accel_fs_bits ACCEL_2G = MPU6050_ACCEL_FS_2G"
| "accel_fs_bits ACCEL_4G = MPU6050_ACCEL_FS_4G"
| "accel_fs_bits ACCEL_8G = MPU6050_ACCEL_FS_8G"
| "accel_fs_bits ACCEL_16G = MPU6050_ACCEL_FS_16G"

fun accel_sens :: "AccelRange \<Rightarrow> real" where
  "accel_sens ACCEL_2G = MPU6050_ACCEL_SENS_2G"
| "accel_sens ACCEL_4G = MPU6050_ACCEL_SENS_4G"
| "accel_sens ACCEL_8G = MPU6050_ACCEL_SENS_8G"
| "accel_sens ACCEL_16G = MPU6050_ACCEL_SENS_16G"

fun gyro_fs_bits :: "GyroRange \<Rightarrow> 8 word" where
  "gyro_fs_bits GYRO_250 = MPU6050_GYRO_FS_250"
| "gyro_fs_bits GYRO_500 = MPU6050_GYRO_FS_500"
| "gyro_fs_bits GYRO_1000 = MPU6050_GYRO_FS_1000"
| "gyro_fs_bits GYRO_2000 = MPU6050_GYRO_FS_2000"

fun gyro_sens :: "GyroRange \<Rightarrow> real" where
  "gyro_sens GYRO_250 = MPU6050_GYRO_SENS_250"
| "gyro_sens GYRO_500 = MPU6050_GYRO_SENS_500"
| "gyro_sens GYRO_1000 = MPU6050_GYRO_SENS_1000"
| "gyro_sens GYRO_2000 = MPU6050_GYRO_SENS_2000"

subsection \<open>Data structures\<close>

text \<open>
  The \<open>int16_t\<close> members are 16-bit words, read as two's complement by \<open>sint\<close>. The
  members are listed in the order the source declares them.
\<close>

record MPU6050_RawData_t =
  Accel_X_Raw :: "16 word"
  Accel_Y_Raw :: "16 word"
  Accel_Z_Raw :: "16 word"
  Gyro_X_Raw :: "16 word"
  Gyro_Y_Raw :: "16 word"
  Gyro_Z_Raw :: "16 word"
  Temp_Raw :: "16 word"

text \<open>
  The members of a \<open>MPU6050_RawData_t\<close> in the order of their declaration, which is
  the order in which the structure stores them.
\<close>

definition RawData_members :: "MPU6050_RawData_t \<Rightarrow> 16 word list" where
  "RawData_members r =
     [Accel_X_Raw r, Accel_Y_Raw r, Accel_Z_Raw r,
      Gyro_X_Raw r, Gyro_Y_Raw r, Gyro_Z_Raw r, Temp_Raw r]"

text \<open>
  The \<open>float\<close> members of the converted sample are real numbers here: a member holds
  the value of the conversion formula, and what single precision can hold of it is said
  where a property depends on it.
\<close>

record MPU6050_Data_t =
  Accel_X :: real
  Accel_Y :: real
  Accel_Z :: real
  Gyro_X :: real
  Gyro_Y :: real
  Gyro_Z :: real
  Temp :: real

text \<open>
  The handle. Its member \<open>hi2c\<close>, the pointer to the I2C peripheral, is represented by
  the bus value that the driver operations take and return.
\<close>

record MPU6050_Handle_t =
  Accel_Sens :: real
  Gyro_Sens :: real
  RawData :: MPU6050_RawData_t
  Data :: MPU6050_Data_t

section \<open>MPU6050 driver: the operations the source does not contain\<close>

text \<open>
  mpu6050.c ends inside \<open>MPU6050_WriteReg\<close>: the bus access, the initialisation and the
  acquisition are not in the source. The definitions of this section are written from
  the specification, over the register map, range tables and structures above.
\<close>

subsection \<open>Bus transaction layer\<close>

text \<open>Modelled from the spec: the bus error taxonomy (the bus layer is missing).\<close>

datatype BusError = NotAcknowledged | Timeout | BusBusy

text \<open>
  Modelled from the spec: a bus transaction, a single-register write of a value or a
  burst read of a number of contiguous registers from a start address (the bus layer is
  missing).
\<close>

datatype transaction = WriteRegister "8 word" "8 word" | ReadRegisters "8 word" nat

text \<open>
  Modelled from the spec: the bus with the device behind it (the bus layer is missing).
  \<open>history\<close> lists the transactions issued so far. The device's answer to the next
  transaction may depend on that history: \<open>write_outcome\<close> is the error of a write, if
  any; \<open>read_outcome\<close> is the error of a burst read or the register contents it
  delivers, by offset from the start address.
\<close>

record bus =
  write_outcome :: "transaction list \<Rightarrow> 8 word \<Rightarrow> 8 word \<Rightarrow> BusError option"
  read_outcome :: "transaction list \<Rightarrow> 8 word \<Rightarrow> nat \<Rightarrow> BusError + (nat \<Rightarrow> 8 word)"
  history :: "transaction list"

text \<open>
  Modelled from the spec: \<open>writeRegister(address, value) -> Result<(), BusError>\<close>
  (its body is missing from \<open>MPU6050_WriteReg\<close>). One transaction, reported and never
  retried.
\<close>

definition writeRegister :: "bus \<Rightarrow> 8 word \<Rightarrow> 8 word \<Rightarrow> (BusError + unit) \<times> bus" where
  "writeRegister b address v =
     ((case write_outcome b (history b) address v of Some e \<Rightarrow> Inl e | None \<Rightarrow> Inr ()),
      b\<lparr>history := history b @ [WriteRegister address v]\<rparr>)"

text \<open>
  Modelled from the spec: \<open>readRegisters(startAddress, count) -> Result<ByteSequence,
  BusError>\<close> (missing from the source). On success the full requested byte count is
  returned.
\<close>

definition readRegisters :: "bus \<Rightarrow> 8 word \<Rightarrow> nat \<Rightarrow> (BusError + 8 word list) \<times> bus" where
  "readRegisters b startAddress count =
     ((case read_outcome b (history b) startAddress count of
         Inl e \<Rightarrow> Inl e
       | Inr regs \<Rightarrow> Inr (map regs [0..<count])),
      b\<lparr>history := history b @ [ReadRegisters startAddress count]\<rparr>)"

subsection \<open>Handle and errors\<close>

text \<open>Modelled from the spec: \<open>InitError\<close> (the initialisation is missing).\<close>

datatype InitError = Init_Bus BusError | UnexpectedDevice

text \<open>Modelled from the spec: \<open>AcquisitionError\<close> (the acquisition is missing).\<close>

datatype AcquisitionError = Acquisition_Bus BusError | NotReady

text \<open>
  Modelled from the spec: the \<open>SensorHandle\<close> lifecycle. \<open>MPU6050_Handle_t\<close> of the
  source has no member that says whether the device was configured; the specification's
  handle is "unconfigured" until initialisation succeeded and "ready" afterwards.
\<close>

record SensorHandle = MPU6050_Handle_t +
  ready :: bool

text \<open>
  The handle before initialisation: the source's \<open>static MPU6050_Handle_t hmpu6050\<close> has
  static storage, so all its members start as zero; it is unconfigured.
\<close>

definition hmpu6050 :: SensorHandle where
  "hmpu6050 =
     \<lparr>Accel_Sens = 0, Gyro_Sens = 0,
      RawData = \<lparr>Accel_X_Raw = 0, Accel_Y_Raw = 0, Accel_Z_Raw = 0,
                 Gyro_X_Raw = 0, Gyro_Y_Raw = 0, Gyro_Z_Raw = 0, Temp_Raw = 0\<rparr>,
      Data = \<lparr>Accel_X = 0, Accel_Y = 0, Accel_Z = 0,
              Gyro_X = 0, Gyro_Y = 0, Gyro_Z = 0, Temp = 0\<rparr>,
      ready = False\<rparr>"

text \<open>
  Modelled from the spec: the values the specification leaves open and the source does
  not give: the expected content of the identity register, the value written to power
  management 1 to clear the sleep bit, and the fixed low-pass filter setting.
\<close>

record driver_consts =
  device_id :: "8 word"
  wake_value :: "8 word"
  lpf_config :: "8 word"

subsection \<open>Device configuration\<close>

text \<open>
  Modelled from the spec: \<open>initialize(bus, accelRange, gyroRange, sampleRateDivider) ->
  Result<SensorHandle, InitError>\<close> (missing from the source), the six steps of section
  4.2 in their fixed order, each of which must succeed before the next.
\<close>

definition initialize ::
  "driver_consts \<Rightarrow> bus \<Rightarrow> AccelRange \<Rightarrow> GyroRange \<Rightarrow> 8 word \<Rightarrow> (InitError + SensorHandle) \<times> bus"
where
  "initialize k b accelRange gyroRange sampleRateDivider =
     (case writeRegister b MPU6050_REG_PWR_MGMT_1 (wake_value k) of
        (Inl e, b1) \<Rightarrow> (Inl (Init_Bus e), b1)
      | (Inr _, b1) \<Rightarrow>
     (case readRegisters b1 MPU6050_REG_WHO_AM_I 1 of
        (Inl e, b2) \<Rightarrow> (Inl (Init_Bus e), b2)
      | (Inr ident, b2) \<Rightarrow>
     if ident \<noteq> [device_id k] then (Inl UnexpectedDevice, b2) else
     (case writeRegister b2 MPU6050_REG_SMPLRT_DIV sampleRateDivider of
        (Inl e, b3) \<Rightarrow> (Inl (Init_Bus e), b3)
      | (Inr _, b3) \<Rightarrow>
     (case writeRegister b3 MPU6050_REG_CONFIG (lpf_config k) of
        (Inl e, b4) \<Rightarrow> (Inl (Init_Bus e), b4)
      | (Inr _, b4) \<Rightarrow>
     (case writeRegister b4 MPU6050_REG_GYRO_CONFIG (gyro_fs_bits gyroRange) of
        (Inl e, b5) \<Rightarrow> (Inl (Init_Bus e), b5)
      | (Inr _, b5) \<Rightarrow>
     (case writeRegister b5 MPU6050_REG_ACCEL_CONFIG (accel_fs_bits accelRange) of
        (Inl e, b6) \<Rightarrow> (Inl (Init_Bus e), b6)
      | (Inr _, b6) \<Rightarrow>
          (Inr (hmpu6050\<lparr>Accel_Sens := accel_sens accelRange,
                         Gyro_Sens := gyro_sens gyroRange, ready := True\<rparr>), b6)))))))"

subsection \<open>Sample acquisition\<close>

text \<open>
  Modelled from the spec: a big-endian 16-bit word from its high and low byte (the
  decoding is missing from the source).
\<close>

definition be16 :: "8 word \<Rightarrow> 8 word \<Rightarrow> 16 word" where
  "be16 hi lo = push_bit 8 (ucast hi) OR ucast lo"

text \<open>
  Modelled from the spec: the decoding of a burst that starts at the accelerometer-data
  register (missing from the source). Each value is the big-endian word at the offset of
  its register from \<open>MPU6050_REG_ACCEL_XOUT_H\<close> in the source's register map; the Y and Z
  axes follow their X axis.
\<close>

definition word_at :: "8 word list \<Rightarrow> nat \<Rightarrow> 16 word" where
  "word_at bytes off = be16 (bytes ! off) (bytes ! (off + 1))"

definition decode :: "8 word list \<Rightarrow> MPU6050_RawData_t" where
  "decode bytes =
     (let accel = 0;
          temp = unat (MPU6050_REG_TEMP_OUT_H - MPU6050_REG_ACCEL_XOUT_H);
          gyro = unat (MPU6050_REG_GYRO_XOUT_H - MPU6050_REG_ACCEL_XOUT_H)
      in \<lparr>Accel_X_Raw = word_at bytes accel,
          Accel_Y_Raw = word_at bytes (accel + 2),
          Accel_Z_Raw = word_at bytes (accel + 4),
          Gyro_X_Raw = word_at bytes gyro,
          Gyro_Y_Raw = word_at bytes (gyro + 2),
          Gyro_Z_Raw = word_at bytes (gyro + 4),
          Temp_Raw = word_at bytes temp\<rparr>)"

text \<open>
  Modelled from the spec: \<open>acquire(handle) -> Result<RawSample, AcquisitionError>\<close>
  (missing from the source): refuse a handle that is not ready; otherwise one burst read
  of 14 bytes from the accelerometer-data register; on success decode and overwrite the
  handle's raw sample, on failure leave the handle as it is.
\<close>

definition acquire ::
  "SensorHandle \<Rightarrow> bus \<Rightarrow> (AcquisitionError + MPU6050_RawData_t) \<times> SensorHandle \<times> bus"
where
  "acquire h b =
     (if \<not> ready h then (Inl NotReady, h, b)
      else (case readRegisters b MPU6050_REG_ACCEL_XOUT_H 14 of
              (Inl e, b') \<Rightarrow> (Inl (Acquisition_Bus e), h, b')
            | (Inr bytes, b') \<Rightarrow>
                (let r = decode bytes in (Inr r, h\<lparr>RawData := r\<rparr>, b'))))"

subsection \<open>Unit conversion\<close>


subsection \<open>Devices for concrete runs\<close>

text \<open>
  A device that acknowledges every transaction and serves a burst read from a register
  file, advancing its register pointer by one for each byte.
\<close>

definition responsive_bus :: "(8 word \<Rightarrow> 8 word) \<Rightarrow> bus" where
  "responsive_bus registers =
     \<lparr>write_outcome = (\<lambda>past address v. None),
      read_outcome = (\<lambda>past startAddress count. Inr (\<lambda>i. registers (startAddress + of_nat i))),
      history = []\<rparr>"

text \<open>A device that acknowledges every write and lets every burst read time out.\<close>

definition timeout_bus :: bus where
  "timeout_bus =
     \<lparr>write_outcome = (\<lambda>past address v. None),
      read_outcome = (\<lambda>past startAddress count. Inl Timeout),
      history = []\<rparr>"

section \<open>Properties of the ADC sampling code\<close>

lemma unat_u16_bound: "unat (w :: 16 word) \<le> 65535"
  using unsigned_less [of w, where ?'a = nat] by simp

lemma unat_ucast_u16_u32: "unat (ucast (w :: 16 word) :: 32 word) = unat w"
proof -
  have "unat w < 2 ^ 32"
    using unat_u16_bound [of w] by simp
  then show ?thesis
    by (simp add: unsigned_ucast_eq take_bit_nat_eq_self)
qed

lemma unat_ucast_u32_u16:
  "unat (w :: 32 word) \<le> 65535 \<Longrightarrow> unat (ucast w :: 16 word) = unat w"
  by (simp add: unsigned_ucast_eq take_bit_nat_eq_self)

text \<open>
  Loop invariant: as long as the accumulator leaves room for the remaining readings, it
  holds the true sum of the readings taken so far.
\<close>

lemma ADC_AverageFilter_loop_sum:
  "unat i \<le> SAMPLE_COUNT \<Longrightarrow> unat s + (SAMPLE_COUNT - unat i) * 65535 < 2 ^ 32 \<Longrightarrow>
   unat (ADC_AverageFilter_loop hw i s) =
     unat s + (\<Sum>k = unat i..<SAMPLE_COUNT. unat (ADC_Read (hw k)))"
proof (induction hw i s rule: ADC_AverageFilter_loop.induct)
  case (1 hw i s)
  show ?case
  proof (cases "unat i < SAMPLE_COUNT")
    case False
    with "1.prems" show ?thesis
      by (simp add: ADC_AverageFilter_loop.simps [of hw i s])
  next
    case True
    let ?r = "ucast (ADC_Read (hw (unat i))) :: 32 word"
    have i1: "unat (i + 1) = unat i + 1"
      using True by (simp add: unat_word_ariths SAMPLE_COUNT_def)
    have rr: "unat ?r = unat (ADC_Read (hw (unat i)))"
      by (rule unat_ucast_u16_u32)
    have r: "unat ?r \<le> 65535"
      unfolding rr by (rule unat_u16_bound)
    have nowrap: "unat s + unat ?r < 2 ^ 32"
      using "1.prems" True r by (simp add: SAMPLE_COUNT_def)
    then have s1: "unat (s + ?r) = unat s + unat ?r"
      by (simp add: unat_word_ariths)
    have "unat (ADC_AverageFilter_loop hw (i + 1) (s + ?r)) =
        unat (s + ?r) + (\<Sum>k = unat (i + 1)..<SAMPLE_COUNT. unat (ADC_Read (hw k)))"
      using True "1.prems" r by (intro "1.IH") (simp_all add: i1 s1 SAMPLE_COUNT_def)
    then show ?thesis
      using True by (simp add: ADC_AverageFilter_loop.simps [of hw i s] i1 s1 rr
          sum.atLeast_Suc_lessThan)
  qed
qed

text \<open>
  Claim C8. Whatever the ten readings are (each is a \<open>uint16_t\<close>, so at most 65535),
  \<open>ADC_AverageFilter\<close> returns the floor of their sum divided by ten: the 32-bit
  accumulator holds the exact sum (no wrap-around), and the quotient fits 16 bits, so the
  final narrowing loses nothing.
\<close>

theorem ADC_AverageFilter_exact:
  "unat (ADC_AverageFilter hw) = (\<Sum>k<10. unat (ADC_Read (hw k))) div 10 \<and>
   unat (ADC_AverageFilter_loop hw 0 0) = (\<Sum>k<10. unat (ADC_Read (hw k))) \<and>
   (\<Sum>k<10. unat (ADC_Read (hw k))) < 2 ^ 32 \<and>
   unat (ADC_AverageFilter_loop hw 0 0 div 10) \<le> 65535"
proof -
  let ?S = "\<Sum>k<10. unat (ADC_Read (hw k))"
  have acc: "unat (ADC_AverageFilter_loop hw 0 0) = ?S"
    using ADC_AverageFilter_loop_sum [of 0 0 hw] by (simp add: SAMPLE_COUNT_def atLeast0LessThan)
  have "?S \<le> (\<Sum>k<(10::nat). 65535)"
    by (rule sum_mono) (rule unat_u16_bound)
  then have S: "?S \<le> 655350"
    by simp
  have "unat (ADC_AverageFilter_loop hw 0 0 div 10) =
      unat (ADC_AverageFilter_loop hw 0 0) div unat (10 :: 32 word)"
    by (rule unat_div)
  then have q: "unat (ADC_AverageFilter_loop hw 0 0 div 10) = ?S div 10"
    by (simp add: acc)
  have small: "unat (ADC_AverageFilter_loop hw 0 0 div 10) \<le> 65535"
    unfolding q using S by simp
  have "unat (ADC_AverageFilter hw) = ?S div 10"
    using unat_ucast_u32_u16 [OF small] by (simp add: ADC_AverageFilter_def SAMPLE_COUNT_def q)
  with acc small S show ?thesis
    by simp
qed

text \<open>
  Claim C9. \<open>ADC_Read\<close> returns 0 whenever the poll with timeout 10 reports anything but
  \<open>HAL_OK\<close>, and the converted sample (narrowed to 16 bits) when it reports \<open>HAL_OK\<close>.
  The result type carries no status, so a failed conversion returns exactly what a
  successful conversion of the value 0 returns.
\<close>

theorem ADC_Read_failure_is_zero:
  "(HAL_ADC_PollForConversion c 10 \<noteq> HAL_OK \<longrightarrow> ADC_Read c = 0) \<and>
   (HAL_ADC_PollForConversion c 10 = HAL_OK \<longrightarrow> ADC_Read c = ucast (HAL_ADC_GetValue c)) \<and>
   (HAL_ADC_PollForConversion c 10 \<noteq> HAL_OK \<longrightarrow>
      ADC_Read c = ADC_Read \<lparr>HAL_ADC_PollForConversion = (\<lambda>t. HAL_OK), HAL_ADC_GetValue = 0\<rparr>)"
  by (simp add: ADC_Read_def)

theorem ADC_Read_failure_is_zero_witness:
  "HAL_ADC_PollForConversion
     \<lparr>HAL_ADC_PollForConversion = (\<lambda>t. if t < 25 then HAL_TIMEOUT else HAL_OK),
      HAL_ADC_GetValue = 1234\<rparr> 10 \<noteq> HAL_OK \<and>
   ADC_Read \<lparr>HAL_ADC_PollForConversion = (\<lambda>t. if t < 25 then HAL_TIMEOUT else HAL_OK),
             HAL_ADC_GetValue = 1234\<rparr> = 0 \<and>
   ADC_Read \<lparr>HAL_ADC_PollForConversion = (\<lambda>t. if t < 25 then HAL_TIMEOUT else HAL_OK),
             HAL_ADC_GetValue = 1234\<rparr> =
   ADC_Read \<lparr>HAL_ADC_PollForConversion = (\<lambda>t. HAL_OK), HAL_ADC_GetValue = 0\<rparr> \<and>
   HAL_ADC_PollForConversion
     \<lparr>HAL_ADC_PollForConversion = (\<lambda>t. if t < 5 then HAL_TIMEOUT else HAL_OK),
      HAL_ADC_GetValue = 0x1F0FF\<rparr> 10 = HAL_OK \<and>
   ADC_Read \<lparr>HAL_ADC_PollForConversion = (\<lambda>t. if t < 5 then HAL_TIMEOUT else HAL_OK),
             HAL_ADC_GetValue = 0x1F0FF\<rparr> = 0xF0FF"
proof -
  let ?late = "\<lparr>HAL_ADC_PollForConversion = (\<lambda>t. if t < 25 then HAL_TIMEOUT else HAL_OK),
                HAL_ADC_GetValue = 1234\<rparr>"
  let ?intime = "\<lparr>HAL_ADC_PollForConversion = (\<lambda>t. if t < 5 then HAL_TIMEOUT else HAL_OK),
                  HAL_ADC_GetValue = 0x1F0FF\<rparr>"
  have late: "HAL_ADC_PollForConversion ?late 10 \<noteq> HAL_OK"
    by simp
  have intime: "HAL_ADC_PollForConversion ?intime 10 = HAL_OK"
    by simp
  have narrow: "ucast (HAL_ADC_GetValue ?intime) = (0xF0FF :: 16 word)"
    by simp
  from ADC_Read_failure_is_zero [of ?late] late
  have "ADC_Read ?late = 0"
    and "ADC_Read ?late =
      ADC_Read \<lparr>HAL_ADC_PollForConversion = (\<lambda>t. HAL_OK), HAL_ADC_GetValue = 0\<rparr>"
    by blast+
  moreover from ADC_Read_failure_is_zero [of ?intime] intime narrow
  have "ADC_Read ?intime = 0xF0FF"
    by metis
  ultimately show ?thesis
    using late intime by blast
qed


section \<open>Properties of the list reversal\<close>

lemma list_at_head: "list_at h p cs \<Longrightarrow> p = head_of cs"
  by (cases cs) auto

lemma list_at_ConsD:
  assumes "list_at h p ((a, v) # cs)"
  obtains n where "p = a" "a \<noteq> 0" "h a = Some n" "data n = v" "list_at h (next_node n) cs"
  using assms by (cases "h a") auto

lemma list_at_unique: "list_at h p cs \<Longrightarrow> list_at h p ds \<Longrightarrow> cs = ds"
proof (induction cs arbitrary: p ds)
  case Nil
  then show ?case by (cases ds) auto
next
  case (Cons c cs)
  obtain a v where c: "c = (a, v)" by (cases c)
  from Cons.prems c obtain d ds' where ds: "ds = d # ds'"
    by (cases ds) auto
  obtain b w where d: "d = (b, w)" by (cases d)
  from Cons.prems(1) c have "list_at h p ((a, v) # cs)"
    by simp
  then obtain n where n: "p = a" "h a = Some n" "data n = v" "list_at h (next_node n) cs"
    by (elim list_at_ConsD)
  from Cons.prems(2) ds d have "list_at h p ((b, w) # ds')"
    by simp
  then obtain m where m: "p = b" "h b = Some m" "data m = w" "list_at h (next_node m) ds'"
    by (elim list_at_ConsD)
  from n m have same: "b = a" "m = n" "w = v"
    by auto
  with m have "list_at h (next_node n) ds'"
    by simp
  with n(4) have "cs = ds'"
    by (rule Cons.IH)
  with same show ?case
    by (simp add: c ds d)
qed

lemma list_at_suffix: "list_at h p (cs @ ds) \<Longrightarrow> \<exists>q. list_at h q ds"
proof (induction cs arbitrary: p)
  case Nil
  then show ?case by auto
next
  case (Cons c cs)
  obtain a v where c: "c = (a, v)" by (cases c)
  from Cons.prems c have "list_at h p ((a, v) # (cs @ ds))"
    by simp
  then obtain n :: Node where "list_at h (next_node n) (cs @ ds)"
    by (elim list_at_ConsD)
  then show ?case by (rule Cons.IH)
qed

lemma list_at_fresh_head:
  assumes "list_at h p ((a, v) # cs)"
  shows "a \<notin> fst ` set cs"
proof
  assume "a \<in> fst ` set cs"
  then obtain w where "(a, w) \<in> set cs" by auto
  then obtain xs ys where cs: "cs = xs @ (a, w) # ys"
    by (auto simp: in_set_conv_decomp)
  from assms have "list_at h p (((a, v) # xs) @ (a, w) # ys)"
    by (simp add: cs)
  then obtain q where q: "list_at h q ((a, w) # ys)"
    by (blast dest: list_at_suffix)
  then have "q = a" by simp
  moreover from assms have "p = a" by simp
  ultimately have "list_at h a ((a, v) # cs)" "list_at h a ((a, w) # ys)"
    using assms q by simp_all
  then have "(a, v) # cs = (a, w) # ys"
    by (rule list_at_unique)
  then show False
    by (simp add: cs)
qed

lemma list_at_update:
  "a \<notin> fst ` set cs \<Longrightarrow> list_at (h(a \<mapsto> n)) p cs = list_at h p cs"
proof (induction cs arbitrary: p)
  case Nil
  then show ?case by simp
next
  case (Cons c cs)
  obtain b v where c: "c = (b, v)" by (cases c)
  with Cons.prems have "b \<noteq> a" "a \<notin> fst ` set cs" by auto
  with Cons.IH show ?case
    by (simp add: c split: option.splits)
qed

lemma reverse_loop_correct:
  "list_at h cur cs \<Longrightarrow> list_at h prev ds \<Longrightarrow> fst ` set cs \<inter> fst ` set ds = {} \<Longrightarrow>
   \<exists>h'. reverse_loop h prev cur = Some (h', head_of (rev cs @ ds)) \<and>
        list_at h' (head_of (rev cs @ ds)) (rev cs @ ds)"
proof (induction cs arbitrary: h cur prev ds)
  case Nil
  then have "cur = NULL" "prev = head_of ds"
    by (auto dest: list_at_head)
  with Nil show ?case
    by (simp add: reverse_loop.simps [of h "head_of ds" 0])
next
  case (Cons c cs)
  obtain a v where c: "c = (a, v)" by (cases c)
  from Cons.prems(1) c have "list_at h cur ((a, v) # cs)"
    by simp
  then obtain n where n: "cur = a" "a \<noteq> 0" "h a = Some n" "data n = v"
      "list_at h (next_node n) cs"
    by (elim list_at_ConsD)
  let ?h = "h(a \<mapsto> n\<lparr>next_node := prev\<rparr>)"
  have a_cs: "a \<notin> fst ` set cs"
    using Cons.prems(1) unfolding c by (rule list_at_fresh_head)
  have a_ds: "a \<notin> fst ` set ds"
    using Cons.prems(3) c by auto
  have 1: "list_at ?h (next_node n) cs"
    using n(5) a_cs by (simp add: list_at_update)
  have 2: "list_at ?h a ((a, v) # ds)"
    using Cons.prems(2) a_ds n by (simp add: list_at_update)
  have 3: "fst ` set cs \<inter> fst ` set ((a, v) # ds) = {}"
    using Cons.prems(3) a_cs c by auto
  from Cons.IH [OF 1 2 3] obtain h' where
    "reverse_loop ?h a (next_node n) = Some (h', head_of (rev cs @ (a, v) # ds))"
    "list_at h' (head_of (rev cs @ (a, v) # ds)) (rev cs @ (a, v) # ds)"
    by blast
  then show ?case
    by (simp add: reverse_loop.simps [of h prev a] n c)
qed

text \<open>
  Claim C10. When \<open>head\<close> heads a \<open>NULL\<close>-terminated (hence finite and acyclic) list
  with nodes \<open>cs\<close>, \<open>reverse\<close> returns, and the pointer it returns heads the list of
  the same nodes with the same data in reversed order; reversing that list again returns
  \<open>head\<close>, heading the original sequence. Reversing the empty list (\<open>NULL\<close>) gives
  \<open>NULL\<close> and leaves the heap as it is.
\<close>

theorem reverse_correct:
  assumes "list_at h head cs"
  shows "(\<exists>h' h''. reverse h head = Some (h', head_of (rev cs)) \<and>
            list_at h' (head_of (rev cs)) (rev cs) \<and>
            reverse h' (head_of (rev cs)) = Some (h'', head) \<and>
            list_at h'' head cs) \<and>
         reverse h NULL = Some (h, NULL)"
proof
  from reverse_loop_correct [OF assms, of NULL "[]"] obtain h' where
    1: "reverse h head = Some (h', head_of (rev cs))" "list_at h' (head_of (rev cs)) (rev cs)"
    by (auto simp: reverse_def)
  from reverse_loop_correct [OF 1(2), of NULL "[]"] obtain h'' where
    2: "reverse h' (head_of (rev cs)) = Some (h'', head_of cs)" "list_at h'' (head_of cs) cs"
    by (auto simp: reverse_def)
  from assms have "head = head_of cs"
    by (rule list_at_head)
  with 1 2 show "\<exists>h' h''. reverse h head = Some (h', head_of (rev cs)) \<and>
           list_at h' (head_of (rev cs)) (rev cs) \<and>
           reverse h' (head_of (rev cs)) = Some (h'', head) \<and>
           list_at h'' head cs"
    by auto
  show "reverse h NULL = Some (h, NULL)"
    by (simp add: reverse_def reverse_loop.simps [of h 0 0])
qed

theorem reverse_correct_witness:
  "list_at
     (Map.empty(4 \<mapsto> \<lparr>data = 10, next_node = 8\<rparr>, 8 \<mapsto> \<lparr>data = 20, next_node = 12\<rparr>,
        12 \<mapsto> \<lparr>data = 30, next_node = NULL\<rparr>))
     4 [(4, 10), (8, 20), (12, 30)] \<and>
   (\<exists>h' h''.
      reverse
        (Map.empty(4 \<mapsto> \<lparr>data = 10, next_node = 8\<rparr>, 8 \<mapsto> \<lparr>data = 20, next_node = 12\<rparr>,
           12 \<mapsto> \<lparr>data = 30, next_node = NULL\<rparr>)) 4 = Some (h', 12) \<and>
      list_at h' 12 [(12, 30), (8, 20), (4, 10)] \<and>
      reverse h' 12 = Some (h'', 4) \<and>
      list_at h'' 4 [(4, 10), (8, 20), (12, 30)]) \<and>
   reverse
     (Map.empty(4 \<mapsto> \<lparr>data = 10, next_node = 8\<rparr>, 8 \<mapsto> \<lparr>data = 20, next_node = 12\<rparr>,
        12 \<mapsto> \<lparr>data = 30, next_node = NULL\<rparr>)) NULL =
   Some (Map.empty(4 \<mapsto> \<lparr>data = 10, next_node = 8\<rparr>, 8 \<mapsto> \<lparr>data = 20, next_node = 12\<rparr>,
        12 \<mapsto> \<lparr>data = 30, next_node = NULL\<rparr>), NULL)"
proof -
  let ?h = "Map.empty(4 \<mapsto> \<lparr>data = 10, next_node = 8\<rparr>, 8 \<mapsto> \<lparr>data = 20, next_node = 12\<rparr>,
      12 \<mapsto> \<lparr>data = 30 :: 32 word, next_node = NULL\<rparr>)"
  have l: "list_at ?h 4 [(4, 10), (8, 20), (12, 30)]"
    by simp
  from reverse_correct [OF l] l show ?thesis
    by simp
qed


section \<open>Properties of the MPU6050 tables and driver operations\<close>

text \<open>
  Claim C2, as the code has it. Every accelerometer range and every gyroscope range has a
  strictly positive sensitivity, given by the range alone. The ranges 2g, 4g, 8g, 16g
  carry the selector bit patterns 0x00, 0x08, 0x10, 0x18 and the sensitivities 16384,
  8192, 4096, 2048. The ranges 250, 500, 1000, 2000 degrees per second carry the same
  selector bit patterns and the single-precision constants \<open>131.0f\<close>, \<open>65.5f\<close>,
  \<open>32.8f\<close>, \<open>16.4f\<close>: these are 131, 65.5, 8598323 / 2^18 and 8598323 / 2^19. The
  significand 8598323 has 24 bits, so the last two lie less than half a unit in the last
  place (2^-18 and 2^-19) from 32.8 and 16.4: they are the nearest single-precision
  values, not 32.8 and 16.4 themselves.
\<close>

theorem sensitivity_table:
  "0 < accel_sens a \<and> 0 < gyro_sens g \<and>
   map (\<lambda>a. (accel_fs_bits a, accel_sens a)) [ACCEL_2G, ACCEL_4G, ACCEL_8G, ACCEL_16G] =
     [(0x00, 16384), (0x08, 8192), (0x10, 4096), (0x18, 2048)] \<and>
   map (\<lambda>g. (gyro_fs_bits g, gyro_sens g)) [GYRO_250, GYRO_500, GYRO_1000, GYRO_2000] =
     [(0x00, 131.0), (0x08, 65.5), (0x10, 8598323 / 2 ^ 18), (0x18, 8598323 / 2 ^ 19)] \<and>
   (2 :: nat) ^ 23 \<le> 8598323 \<and> 8598323 < (2 :: nat) ^ 24 \<and>
   \<bar>gyro_sens GYRO_1000 - 32.8\<bar> < (1 / 2 ^ 18) / 2 \<and>
   \<bar>gyro_sens GYRO_2000 - 16.4\<bar> < (1 / 2 ^ 19) / 2"
proof -
  have "0 < accel_sens a"
    by (cases a) (simp_all add: MPU6050_SENS_defs)
  moreover have "0 < gyro_sens g"
    by (cases g) (simp_all add: MPU6050_SENS_defs)
  moreover have "\<bar>gyro_sens GYRO_1000 - 32.8\<bar> < (1 / 2 ^ 18) / 2"
    by (simp add: MPU6050_SENS_defs abs_if)
  moreover have "\<bar>gyro_sens GYRO_2000 - 16.4\<bar> < (1 / 2 ^ 19) / 2"
    by (simp add: MPU6050_SENS_defs abs_if)
  ultimately show ?thesis
    by (simp add: MPU6050_SENS_defs MPU6050_FS_defs)
qed

text \<open>
  Claim C2, as stated, fails on the last two gyroscope ranges: the table of the source is
  not the table with the sensitivities 32.8 and 16.4.
\<close>

theorem gyro_sensitivity_counterexample:
  "map (\<lambda>g. (gyro_fs_bits g, gyro_sens g)) [GYRO_250, GYRO_500, GYRO_1000, GYRO_2000] \<noteq>
     [(0x00, 131.0), (0x08, 65.5), (0x10, 32.8), (0x18, 16.4)] \<and>
   gyro_sens GYRO_1000 \<noteq> 32.8 \<and> gyro_sens GYRO_2000 \<noteq> 16.4"
  by (simp add: MPU6050_SENS_defs MPU6050_FS_defs)

lemma decode_nth:
  assumes "\<And>k. k < 14 \<Longrightarrow> bytes ! k = regs k"
  shows "decode bytes =
     \<lparr>Accel_X_Raw = be16 (regs 0) (regs 1),
      Accel_Y_Raw = be16 (regs 2) (regs 3),
      Accel_Z_Raw = be16 (regs 4) (regs 5),
      Gyro_X_Raw = be16 (regs 8) (regs 9),
      Gyro_Y_Raw = be16 (regs 10) (regs 11),
      Gyro_Z_Raw = be16 (regs 12) (regs 13),
      Temp_Raw = be16 (regs 6) (regs 7)\<rparr>"
  by (simp add: decode_def word_at_def MPU6050_REG_defs assms del: add_2_eq_Suc add_2_eq_Suc')

lemma decode_burst:
  "decode (map regs [0..<14]) =
     \<lparr>Accel_X_Raw = be16 (regs 0) (regs 1),
      Accel_Y_Raw = be16 (regs 2) (regs 3),
      Accel_Z_Raw = be16 (regs 4) (regs 5),
      Gyro_X_Raw = be16 (regs 8) (regs 9),
      Gyro_Y_Raw = be16 (regs 10) (regs 11),
      Gyro_Z_Raw = be16 (regs 12) (regs 13),
      Temp_Raw = be16 (regs 6) (regs 7)\<rparr>"
proof (rule decode_nth)
  fix k :: nat
  assume "k < 14"
  then show "map regs [0..<14] ! k = regs k"
    by (simp del: upt_rec_numeral)
qed

text \<open>
  Claim C1, as the code has it. On a ready handle, acquisition issues exactly one
  transaction, a burst read of 14 bytes from register 0x3B, whatever its outcome. When
  the read succeeds, the seven big-endian words of the burst are, in wire order, accel X,
  accel Y, accel Z, temperature, gyro X, gyro Y, gyro Z, and they become the handle's raw
  sample. The structure \<open>MPU6050_RawData_t\<close> does not store them in wire order: its
  members are accel X, Y, Z, gyro X, Y, Z and then the temperature, that is the wire
  words 0, 1, 2, 4, 5, 6, 3.
\<close>

theorem acquire_burst:
  assumes "ready h"
  shows "history (snd (snd (acquire h b))) =
           history b @ [ReadRegisters 0x3B 14] \<and>
         (\<forall>regs. read_outcome b (history b) 0x3B 14 = Inr regs \<longrightarrow>
            (\<exists>r. acquire h b =
                (Inr r, h\<lparr>RawData := r\<rparr>, b\<lparr>history := history b @ [ReadRegisters 0x3B 14]\<rparr>) \<and>
              [Accel_X_Raw r, Accel_Y_Raw r, Accel_Z_Raw r, Temp_Raw r,
               Gyro_X_Raw r, Gyro_Y_Raw r, Gyro_Z_Raw r] =
                map (\<lambda>k. be16 (regs (2 * k)) (regs (2 * k + 1))) [0..<7] \<and>
              RawData_members r =
                map (\<lambda>k. be16 (regs (2 * k)) (regs (2 * k + 1))) [0, 1, 2, 4, 5, 6, 3]))"
proof (intro conjI allI impI)
  show "history (snd (snd (acquire h b))) = history b @ [ReadRegisters 0x3B 14]"
    using assms
    by (simp add: acquire_def readRegisters_def MPU6050_REG_ACCEL_XOUT_H_def Let_def
        split: sum.splits)
next
  fix regs
  assume ok: "read_outcome b (history b) 0x3B 14 = Inr regs"
  have seven: "[0..<7] = [0, 1, 2, 3, 4, 5, 6]"
    by (simp add: upt_rec)
  have "acquire h b =
      (Inr (decode (map regs [0..<14])), h\<lparr>RawData := decode (map regs [0..<14])\<rparr>,
       b\<lparr>history := history b @ [ReadRegisters 0x3B 14]\<rparr>)"
    using assms ok
    by (simp add: acquire_def readRegisters_def MPU6050_REG_ACCEL_XOUT_H_def Let_def)
  then show "\<exists>r. acquire h b =
                (Inr r, h\<lparr>RawData := r\<rparr>, b\<lparr>history := history b @ [ReadRegisters 0x3B 14]\<rparr>) \<and>
              [Accel_X_Raw r, Accel_Y_Raw r, Accel_Z_Raw r, Temp_Raw r,
               Gyro_X_Raw r, Gyro_Y_Raw r, Gyro_Z_Raw r] =
                map (\<lambda>k. be16 (regs (2 * k)) (regs (2 * k + 1))) [0..<7] \<and>
              RawData_members r =
                map (\<lambda>k. be16 (regs (2 * k)) (regs (2 * k + 1))) [0, 1, 2, 4, 5, 6, 3]"
    by (simp add: decode_burst RawData_members_def seven)
qed

theorem acquire_burst_witness:
  "ready (hmpu6050\<lparr>ready := True\<rparr>) \<and>
   read_outcome (responsive_bus (\<lambda>a. a)) (history (responsive_bus (\<lambda>a. a))) 0x3B 14 =
     Inr (\<lambda>i. 0x3B + of_nat i) \<and>
   history (snd (snd (acquire (hmpu6050\<lparr>ready := True\<rparr>) (responsive_bus (\<lambda>a. a))))) =
     [ReadRegisters 0x3B 14] \<and>
   (\<exists>r. fst (acquire (hmpu6050\<lparr>ready := True\<rparr>) (responsive_bus (\<lambda>a. a))) = Inr r \<and>
      [Accel_X_Raw r, Accel_Y_Raw r, Accel_Z_Raw r, Temp_Raw r,
       Gyro_X_Raw r, Gyro_Y_Raw r, Gyro_Z_Raw r] =
        [0x3B3C, 0x3D3E, 0x3F40, 0x4142, 0x4344, 0x4546, 0x4748] \<and>
      RawData_members r = [0x3B3C, 0x3D3E, 0x3F40, 0x4344, 0x4546, 0x4748, 0x4142])"
proof -
  let ?h = "hmpu6050\<lparr>ready := True\<rparr>"
  let ?b = "responsive_bus (\<lambda>a. a)"
  let ?regs = "\<lambda>i. 0x3B + of_nat i :: 8 word"
  have rdy: "ready ?h"
    by simp
  have ok: "read_outcome ?b (history ?b) 0x3B 14 = Inr ?regs"
    by (simp add: responsive_bus_def)
  have nohist: "history ?b = []"
    by (simp add: responsive_bus_def)
  have wire: "map (\<lambda>k. be16 (?regs (2 * k)) (?regs (2 * k + 1))) [0..<7] =
      [0x3B3C, 0x3D3E, 0x3F40, 0x4142, 0x4344, 0x4546, 0x4748]"
    by (simp add: be16_def upt_rec)
  have members: "map (\<lambda>k. be16 (?regs (2 * k)) (?regs (2 * k + 1))) [0, 1, 2, 4, 5, 6, 3] =
      [0x3B3C, 0x3D3E, 0x3F40, 0x4344, 0x4546, 0x4748, 0x4142]"
    by (simp add: be16_def)
  from acquire_burst [OF rdy, of ?b] ok
  have "history (snd (snd (acquire ?h ?b))) = history ?b @ [ReadRegisters 0x3B 14]"
    and "\<exists>r. acquire ?h ?b =
          (Inr r, ?h\<lparr>RawData := r\<rparr>, ?b\<lparr>history := history ?b @ [ReadRegisters 0x3B 14]\<rparr>) \<and>
        [Accel_X_Raw r, Accel_Y_Raw r, Accel_Z_Raw r, Temp_Raw r,
         Gyro_X_Raw r, Gyro_Y_Raw r, Gyro_Z_Raw r] =
          map (\<lambda>k. be16 (?regs (2 * k)) (?regs (2 * k + 1))) [0..<7] \<and>
        RawData_members r =
          map (\<lambda>k. be16 (?regs (2 * k)) (?regs (2 * k + 1))) [0, 1, 2, 4, 5, 6, 3]"
    by blast+
  then show ?thesis
    unfolding wire members nohist using rdy ok by (auto simp: nohist)
qed

text \<open>
  Claim C1, as stated, fails on the structure: for the burst below, the members of the
  acquired sample, in the order the structure stores them, are not the seven words in
  wire order (the temperature word is the fourth on the wire and the last member).
\<close>

theorem RawSample_order_counterexample:
  "fst (readRegisters (responsive_bus (\<lambda>a. a)) 0x3B 14) =
     Inr [0x3B, 0x3C, 0x3D, 0x3E, 0x3F, 0x40, 0x41, 0x42, 0x43, 0x44, 0x45, 0x46, 0x47, 0x48] \<and>
   RawData_members
     (RawData (fst (snd (acquire (hmpu6050\<lparr>ready := True\<rparr>) (responsive_bus (\<lambda>a. a)))))) \<noteq>
   [be16 0x3B 0x3C, be16 0x3D 0x3E, be16 0x3F 0x40, be16 0x41 0x42,
    be16 0x43 0x44, be16 0x45 0x46, be16 0x47 0x48]"
  by (simp add: acquire_def readRegisters_def responsive_bus_def decode_def word_at_def
      RawData_members_def be16_def MPU6050_REG_defs upt_rec Let_def)

text \<open>
  Claim C5. When the wake-up write of power management 1 succeeds, the next transaction
  of the initialisation is the one-byte read of the identity register 0x75, before any
  other transaction. When that read delivers a byte other than the expected device
  identity, the initialisation fails with \<open>UnexpectedDevice\<close> and has issued these two
  transactions only: no rate, filter or range register was written.
\<close>

theorem initialize_identity_check:
  assumes "write_outcome b (history b) 0x6B (wake_value k) = None"
  shows "(\<exists>rest. history (snd (initialize k b a g d)) =
            history b @ WriteRegister 0x6B (wake_value k) # ReadRegisters 0x75 1 # rest) \<and>
         (\<forall>regs. read_outcome b (history b @ [WriteRegister 0x6B (wake_value k)]) 0x75 1 = Inr regs \<and>
            regs 0 \<noteq> device_id k \<longrightarrow>
            initialize k b a g d =
              (Inl UnexpectedDevice,
               b\<lparr>history := history b @ [WriteRegister 0x6B (wake_value k), ReadRegisters 0x75 1]\<rparr>))"
proof (intro conjI allI impI)
  show "\<exists>rest. history (snd (initialize k b a g d)) =
            history b @ WriteRegister 0x6B (wake_value k) # ReadRegisters 0x75 1 # rest"
    using assms
    by (simp add: initialize_def writeRegister_def readRegisters_def MPU6050_REG_defs
        split: option.splits sum.splits)
next
  fix regs
  assume "read_outcome b (history b @ [WriteRegister 0x6B (wake_value k)]) 0x75 1 = Inr regs \<and>
            regs 0 \<noteq> device_id k"
  with assms show "initialize k b a g d =
              (Inl UnexpectedDevice,
               b\<lparr>history := history b @ [WriteRegister 0x6B (wake_value k), ReadRegisters 0x75 1]\<rparr>)"
    by (simp add: initialize_def writeRegister_def readRegisters_def MPU6050_REG_defs)
qed

theorem initialize_identity_check_witness:
  "write_outcome (responsive_bus (\<lambda>a. 0x98)) (history (responsive_bus (\<lambda>a. 0x98))) 0x6B
     (wake_value \<lparr>device_id = 0x68, wake_value = 0x00, lpf_config = 0x03\<rparr>) = None \<and>
   (\<exists>rest. history (snd (initialize \<lparr>device_id = 0x68, wake_value = 0x00, lpf_config = 0x03\<rparr>
        (responsive_bus (\<lambda>a. 0x98)) ACCEL_4G GYRO_500 7)) =
      WriteRegister 0x6B 0x00 # ReadRegisters 0x75 1 # rest) \<and>
   initialize \<lparr>device_id = 0x68, wake_value = 0x00, lpf_config = 0x03\<rparr>
       (responsive_bus (\<lambda>a. 0x98)) ACCEL_4G GYRO_500 7 =
     (Inl UnexpectedDevice,
      (responsive_bus (\<lambda>a. 0x98))\<lparr>history := [WriteRegister 0x6B 0x00, ReadRegisters 0x75 1]\<rparr>)"
proof -
  let ?k = "\<lparr>device_id = 0x68, wake_value = 0x00, lpf_config = 0x03\<rparr>"
  let ?b = "responsive_bus (\<lambda>a. 0x98)"
  have woke: "write_outcome ?b (history ?b) 0x6B (wake_value ?k) = None"
    by (simp add: responsive_bus_def)
  have other: "read_outcome ?b (history ?b @ [WriteRegister 0x6B (wake_value ?k)]) 0x75 1 =
      Inr (\<lambda>i. 0x98) \<and> (\<lambda>i::nat. 0x98 :: 8 word) 0 \<noteq> device_id ?k"
    by (simp add: responsive_bus_def)
  have nohist: "history ?b = []" "wake_value ?k = 0x00"
    by (simp_all add: responsive_bus_def)
  from initialize_identity_check [OF woke, of ACCEL_4G GYRO_500 7] other
  have "\<exists>rest. history (snd (initialize ?k ?b ACCEL_4G GYRO_500 7)) =
        history ?b @ WriteRegister 0x6B (wake_value ?k) # ReadRegisters 0x75 1 # rest"
    and "initialize ?k ?b ACCEL_4G GYRO_500 7 =
        (Inl UnexpectedDevice,
         ?b\<lparr>history := history ?b @ [WriteRegister 0x6B (wake_value ?k), ReadRegisters 0x75 1]\<rparr>)"
    by blast+
  with woke show ?thesis
    unfolding nohist by simp
qed

text \<open>
  Claim C6. On a handle that is not ready, acquisition fails with \<open>NotReady\<close>; the
  handle and the bus, with its history of transactions, are returned as they were.
\<close>

theorem acquire_not_ready:
  "\<not> ready h \<Longrightarrow> acquire h b = (Inl NotReady, h, b)"
  by (simp add: acquire_def)

theorem acquire_not_ready_witness:
  "\<not> ready hmpu6050 \<and>
   acquire hmpu6050 (responsive_bus (\<lambda>a. a)) = (Inl NotReady, hmpu6050, responsive_bus (\<lambda>a. a)) \<and>
   history (snd (snd (acquire hmpu6050 (responsive_bus (\<lambda>a. a))))) = []"
proof -
  have fresh: "\<not> ready hmpu6050"
    by (simp add: hmpu6050_def)
  have "history (responsive_bus (\<lambda>a. a)) = []"
    by (simp add: responsive_bus_def)
  with acquire_not_ready [OF fresh, of "responsive_bus (\<lambda>a. a)"] fresh show ?thesis
    by simp
qed

text \<open>
  Claim C7. When the burst read of a ready handle fails with a bus error, whichever it
  is, acquisition fails with that error wrapped as \<open>Acquisition_Bus\<close> and returns the
  handle as it was; in particular the stored raw sample is the previous one.
\<close>

theorem acquire_bus_failure:
  assumes "ready h"
    and "read_outcome b (history b) 0x3B 14 = Inl e"
  shows "acquire h b =
    (Inl (Acquisition_Bus e), h, b\<lparr>history := history b @ [ReadRegisters 0x3B 14]\<rparr>) \<and>
    RawData (fst (snd (acquire h b))) = RawData h"
  using assms by (simp add: acquire_def readRegisters_def MPU6050_REG_ACCEL_XOUT_H_def)

theorem acquire_bus_failure_witness:
  "ready (hmpu6050\<lparr>RawData := decode [1, 2, 3, 4, 5, 6, 7, 8, 9, 10, 11, 12, 13, 14], ready := True\<rparr>) \<and>
   read_outcome timeout_bus (history timeout_bus) 0x3B 14 = Inl Timeout \<and>
   acquire (hmpu6050\<lparr>RawData := decode [1, 2, 3, 4, 5, 6, 7, 8, 9, 10, 11, 12, 13, 14], ready := True\<rparr>)
       timeout_bus =
     (Inl (Acquisition_Bus Timeout),
      hmpu6050\<lparr>RawData := decode [1, 2, 3, 4, 5, 6, 7, 8, 9, 10, 11, 12, 13, 14], ready := True\<rparr>,
      timeout_bus\<lparr>history := [ReadRegisters 0x3B 14]\<rparr>) \<and>
   RawData (fst (snd (acquire
       (hmpu6050\<lparr>RawData := decode [1, 2, 3, 4, 5, 6, 7, 8, 9, 10, 11, 12, 13, 14], ready := True\<rparr>)
       timeout_bus))) = decode [1, 2, 3, 4, 5, 6, 7, 8, 9, 10, 11, 12, 13, 14]"
proof -
  let ?h = "hmpu6050\<lparr>RawData := decode [1, 2, 3, 4, 5, 6, 7, 8, 9, 10, 11, 12, 13, 14], ready := True\<rparr>"
  have rdy: "ready ?h"
    by simp
  have fails: "read_outcome timeout_bus (history timeout_bus) 0x3B 14 = Inl Timeout"
    by (simp add: timeout_bus_def)
  have nohist: "history timeout_bus = []"
    by (simp add: timeout_bus_def)
  from acquire_bus_failure [OF rdy fails] rdy fails show ?thesis
    by (simp add: nohist)
qed









end
